theory Spec2Isabelle
  imports Complex_Main "HOL-Library.Multiset" "HOL-Library.Char_ord" "HOL-Library.List_Lexorder"
begin

section \<open>Data model of estoq.py\<close>

text \<open>
  A \<open>pandas.Timestamp\<close> is read by the program through three attributes only:
  \<open>.dt.year\<close>, \<open>.dt.month\<close> and, for the difference \<open>hoje - data\<close>, its position
  on the time line (\<open>.value\<close>, nanoseconds since the epoch).
\<close>

record timestamp =
  ts_year :: int
  ts_month :: nat
  ts_value :: int

text \<open>
  One row of \<open>df_estoque.csv\<close>, with the column names of the file. Quantities are unit
  counts (\<open>int\<close>), which \<open>read_csv\<close> holds in columns of dtype int64; the cost is a
  decimal amount. The cell \<open>data ultima compra\<close> is held
  as \<open>pd.to_datetime(..., errors='coerce')\<close> leaves it: \<open>None\<close> is \<open>NaT\<close>, the cell
  that did not parse.
\<close>

record linha =
  produto :: string
  fabricante :: string
  quantidade_fisica :: int
  quantidade_solicitada :: int
  quantidade_reservada :: int
  quantidade_disponivel :: int
  quantidade_avariada :: int
  custo_liquido_entrada :: rat
  data_ultima_compra :: "timestamp option"

text \<open>
  The columns the script adds to the frame: \<open>ano_compra\<close> and \<open>mes_compra\<close> (lines 64-65)
  and \<open>dias_desde_ultima_compra\<close> (line 205). The last one is \<open>None\<close> as long as the
  column has not been assigned.
\<close>

record linha_df = linha +
  ano_compra :: int
  mes_compra :: nat
  dias_desde_ultima_compra :: "int option"

section \<open>Loader: \<open>carregar_dados\<close>\<close>

text \<open>What \<open>pd.read_csv\<close> did: raised \<open>FileNotFoundError\<close>, raised something else, or
  returned the rows.\<close>

datatype leitura = FileNotFoundError | Exception | Lido "linha list"

text \<open>The three ways \<open>carregar_dados\<close> returns \<open>None\<close>, told apart by the message shown.\<close>

datatype erro_carga = Vazio | ArquivoNaoEncontrado | ErroAoCarregar

definition dropna :: "('a \<Rightarrow> 'b option) \<Rightarrow> 'a list \<Rightarrow> 'a list" where
  "dropna coluna df = filter (\<lambda>r. coluna r \<noteq> None) df"

definition carregar_dados :: "leitura \<Rightarrow> erro_carga + linha list" where
  "carregar_dados arquivo =
     (case arquivo of
        FileNotFoundError \<Rightarrow> Inl ArquivoNaoEncontrado
      | Exception \<Rightarrow> Inl ErroAoCarregar
      | Lido linhas \<Rightarrow>
          (let df = dropna data_ultima_compra linhas
           in if df = [] then Inl Vazio else Inr df))"

section \<open>Global filters\<close>

definition MESES_ABREVIADOS :: "(nat \<times> string) list" where
  "MESES_ABREVIADOS =
     [(1, ''Jan''), (2, ''Fev''), (3, ''Mar''), (4, ''Abr''), (5, ''Mai''), (6, ''Jun''),
      (7, ''Jul''), (8, ''Ago''), (9, ''Set''), (10, ''Out''), (11, ''Nov''), (12, ''Dez'')]"


text \<open>The year selector offers the string \<open>'Todos'\<close> or a year of the data.\<close>

datatype opcao_ano = Todos | Ano int

text \<open>\<open>Series.unique()\<close>: the distinct values in order of first appearance.\<close>

definition unique :: "'a list \<Rightarrow> 'a list" where
  "unique xs = rev (remdups (rev xs))"

text \<open>\<open>list.index\<close> for a value that occurs in the list.\<close>

definition index_de :: "'a list \<Rightarrow> 'a \<Rightarrow> nat" where
  "index_de xs x = length (takeWhile (\<lambda>y. y \<noteq> x) xs)"

text \<open>
  \<open>st.selectbox(label, options)\<close>: the widget hands back one of its options. The user's
  wish is the second argument; a wish that is not on offer leaves the widget on its first
  option, and a widget without options returns \<open>None\<close>.
\<close>

fun selectbox :: "'a list \<Rightarrow> 'a \<Rightarrow> 'a option" where
  "selectbox [] escolha = None"
| "selectbox (primeira # resto) escolha =
     Some (if escolha \<in> set (primeira # resto) then escolha else primeira)"

definition todos_anos :: "linha_df list \<Rightarrow> opcao_ano list" where
  "todos_anos df_estoque = Todos # map Ano (rev (sort (unique (map ano_compra df_estoque))))"

text \<open>Lines 76-83. \<open>MESES_ABREVIADOS[m]\<close> raises \<open>KeyError\<close> for a month that is not a
  key: the result is \<open>None\<close> then.\<close>

definition todos_meses :: "linha_df list \<Rightarrow> opcao_ano \<Rightarrow> string list option" where
  "todos_meses df_estoque ano_filtro =
     (case ano_filtro of
        Todos \<Rightarrow> Some [''Todos'']
      | Ano a \<Rightarrow>
          (let meses_disponiveis_no_ano =
                 unique (map mes_compra (filter (\<lambda>r. ano_compra r = a) df_estoque))
           in case those (map (map_of MESES_ABREVIADOS) meses_disponiveis_no_ano) of
                None \<Rightarrow> None
              | Some abreviados \<Rightarrow>
                  Some (''Todos'' #
                        sort_key (index_de (map snd MESES_ABREVIADOS)) abreviados)))"

text \<open>Lines 94-98: the loop over \<open>MESES_ABREVIADOS.items()\<close> that stops at the first
  abbreviation equal to \<open>mes_filtro\<close>.\<close>

fun num_mes :: "(nat \<times> string) list \<Rightarrow> string \<Rightarrow> nat option" where
  "num_mes [] mes_filtro = None"
| "num_mes ((num, abbrev) # itens) mes_filtro =
     (if abbrev = mes_filtro then Some num else num_mes itens mes_filtro)"

text \<open>Lines 87-100: \<open>df_filtrado\<close> from \<open>df_estoque\<close> and the two selected values.\<close>

definition aplicar_filtros :: "linha_df list \<Rightarrow> opcao_ano \<Rightarrow> string \<Rightarrow> linha_df list" where
  "aplicar_filtros df_estoque ano_filtro mes_filtro =
     (let df_filtrado = df_estoque;
          df_filtrado = (case ano_filtro of
                           Todos \<Rightarrow> df_filtrado
                         | Ano a \<Rightarrow> filter (\<lambda>r. ano_compra r = a) df_filtrado)
      in if mes_filtro \<noteq> ''Todos'' then
           (case num_mes MESES_ABREVIADOS mes_filtro of
              None \<Rightarrow> df_filtrado
            | Some num_mes_selecionado \<Rightarrow>
                filter (\<lambda>r. mes_compra r = num_mes_selecionado) df_filtrado)
         else df_filtrado)"

text \<open>Lines 67-100 as one function of the loaded frame and of what the user asks of the
  two selectors. \<open>None\<close>: the script stopped on an exception.\<close>

definition filtros_globais ::
  "linha_df list \<Rightarrow> opcao_ano \<Rightarrow> string \<Rightarrow> linha_df list option" where
  "filtros_globais df_estoque ano_escolhido mes_escolhido =
     (case selectbox (todos_anos df_estoque) ano_escolhido of
        None \<Rightarrow> None
      | Some ano_filtro \<Rightarrow>
          (case todos_meses df_estoque ano_filtro of
             None \<Rightarrow> None
           | Some meses \<Rightarrow>
               (case selectbox meses mes_escolhido of
                  None \<Rightarrow> None
                | Some mes_filtro \<Rightarrow> Some (aplicar_filtros df_estoque ano_filtro mes_filtro))))"

section \<open>Frame operations used by the views\<close>

text \<open>
  \<open>DataFrame.sort_values(by=..., ascending=False)\<close>: pandas reverses the rows, sorts them
  in ascending order of the key and reverses the outcome, so rows with equal keys stay in
  the order they had. (The default sort kind of pandas does not promise this order of
  equal keys; the model fixes it to the order kept by a stable sort.)
\<close>

definition sort_values_desc :: "('a \<Rightarrow> 'k::linorder) \<Rightarrow> 'a list \<Rightarrow> 'a list" where
  "sort_values_desc by df = rev (sort_key by (rev df))"

text \<open>\<open>DataFrame.groupby(col)\<close> with the default \<open>sort=True\<close>: one group per distinct key,
  the groups in ascending order of the key.\<close>

definition groupby_keys :: "('a \<Rightarrow> 'k::linorder) \<Rightarrow> 'a list \<Rightarrow> 'k list" where
  "groupby_keys col df = sort (remdups (map col df))"

definition grupo :: "('a \<Rightarrow> 'k) \<Rightarrow> 'k \<Rightarrow> 'a list \<Rightarrow> 'a list" where
  "grupo col k df = filter (\<lambda>r. col r = k) df"

definition nunique :: "'a list \<Rightarrow> nat" where
  "nunique xs = length (unique xs)"

text \<open>\<open>Series.sum()\<close> and the \<open>'sum'\<close> aggregation over a column of dtype int64: the sum
  is kept in 64 bits and wraps around without raising.\<close>

definition int64 :: "int \<Rightarrow> int" where
  "int64 x = (x + 2 ^ 63) mod 2 ^ 64 - 2 ^ 63"

definition soma :: "int list \<Rightarrow> int" where
  "soma xs = int64 (sum_list xs)"

text \<open>What a section puts on the page: \<open>st.info\<close> with a message, or the rows handed to
  \<open>st.dataframe\<close> / \<open>px.bar\<close>. The choice of displayed columns is left to the presenter.\<close>

datatype 'a exibicao = Info string | Dados "'a list"

definition nenhum_dado :: string where
  "nenhum_dado = ''Nenhum dado para exibir com os filtros selecionados.''"

section \<open>Overview and top manufacturers (lines 110-130)\<close>

record metricas =
  total_produtos :: nat
  total_itens_fisicos :: int
  valor_total_estoque :: rat

definition visao_geral :: "linha_df list \<Rightarrow> metricas" where
  "visao_geral df_filtrado =
     \<lparr>total_produtos = nunique (map produto df_filtrado),
      total_itens_fisicos = soma (map quantidade_fisica df_filtrado),
      valor_total_estoque =
        sum_list (map (\<lambda>r. of_int (quantidade_fisica r) * custo_liquido_entrada r) df_filtrado)\<rparr>"

definition df_agrupado_fabricante :: "linha_df list \<Rightarrow> (string \<times> int) list" where
  "df_agrupado_fabricante df_filtrado =
     map (\<lambda>f. (f, soma (map quantidade_fisica (grupo fabricante f df_filtrado))))
         (groupby_keys fabricante df_filtrado)"

text \<open>
  Lines 123 and 119-130 with the sort left open: \<open>ordenar\<close> stands for
  \<open>sort_values(by='quantidade fisica', ascending=False)\<close>, whose default kind (quicksort)
  fixes no order among equal sums.
\<close>

definition df_top_10_com ::
  "((string \<times> int) list \<Rightarrow> (string \<times> int) list) \<Rightarrow> linha_df list \<Rightarrow> (string \<times> int) list" where
  "df_top_10_com ordenar df_filtrado = take 10 (ordenar (df_agrupado_fabricante df_filtrado))"

definition secao_top_fabricantes_com ::
  "((string \<times> int) list \<Rightarrow> (string \<times> int) list) \<Rightarrow> linha_df list \<Rightarrow> (string \<times> int) exibicao" where
  "secao_top_fabricantes_com ordenar df_filtrado =
     (if df_filtrado \<noteq> [] then Dados (df_top_10_com ordenar df_filtrado)
      else Info nenhum_dado)"

text \<open>The same with the sort of the model, which keeps equal sums in the order of the
  groups.\<close>

definition df_top_10_fabricantes :: "linha_df list \<Rightarrow> (string \<times> int) list" where
  "df_top_10_fabricantes df_filtrado = df_top_10_com (sort_values_desc snd) df_filtrado"

definition secao_top_fabricantes :: "linha_df list \<Rightarrow> (string \<times> int) exibicao" where
  "secao_top_fabricantes df_filtrado = secao_top_fabricantes_com (sort_values_desc snd) df_filtrado"

text \<open>The order the top-manufacturers claim asks of the rows shown for a frame: descending
  sums, and among equal sums the manufacturer met first in the frame first.\<close>

definition ordem_primeira_ocorrencia :: "linha_df list \<Rightarrow> (string \<times> int) list \<Rightarrow> bool" where
  "ordem_primeira_ocorrencia df_filtrado mostrado =
     sorted_wrt
       (\<lambda>a b. snd b < snd a \<or>
              (snd a = snd b \<and>
               index_de (map fabricante df_filtrado) (fst a)
                 < index_de (map fabricante df_filtrado) (fst b)))
       mostrado"

section \<open>1. Availability against demand (lines 139-176)\<close>

record resumo =
  rs_produto :: string
  rs_quantidade_fisica :: int
  rs_quantidade_solicitada :: int
  rs_quantidade_reservada :: int
  rs_quantidade_disponivel :: int

definition df_resumo_quantidades :: "linha_df list \<Rightarrow> resumo list" where
  "df_resumo_quantidades df_filtrado =
     map (\<lambda>p. let g = grupo produto p df_filtrado in
            \<lparr>rs_produto = p,
             rs_quantidade_fisica = soma (map quantidade_fisica g),
             rs_quantidade_solicitada = soma (map quantidade_solicitada g),
             rs_quantidade_reservada = soma (map quantidade_reservada g),
             rs_quantidade_disponivel = soma (map quantidade_disponivel g)\<rparr>)
         (groupby_keys produto df_filtrado)"

definition secao_resumo_quantidades :: "linha_df list \<Rightarrow> resumo exibicao" where
  "secao_resumo_quantidades df_filtrado =
     (if df_filtrado \<noteq> [] then
        (if df_resumo_quantidades df_filtrado \<noteq> [] then Dados (df_resumo_quantidades df_filtrado)
         else Info ''Nenhum dado para exibir com os filtros selecionados para o comparativo de quantidades.'')
      else Info nenhum_dado)"

text \<open>\<open>limite_disponibilidade\<close> is the value of the number input (lines 155-164).\<close>

definition produtos_baixa_disponibilidade :: "linha_df list \<Rightarrow> int \<Rightarrow> linha_df list" where
  "produtos_baixa_disponibilidade df_filtrado limite_disponibilidade =
     sort_values_desc quantidade_solicitada
       (filter (\<lambda>r. quantidade_disponivel r < limite_disponibilidade \<and> quantidade_disponivel r \<ge> 0)
          df_filtrado)"

definition secao_baixa_disponibilidade :: "linha_df list \<Rightarrow> int \<Rightarrow> linha_df exibicao" where
  "secao_baixa_disponibilidade df_filtrado limite_disponibilidade =
     (if df_filtrado \<noteq> [] then
        (if produtos_baixa_disponibilidade df_filtrado limite_disponibilidade \<noteq> []
         then Dados (produtos_baixa_disponibilidade df_filtrado limite_disponibilidade)
         else Info ''Nenhum produto com disponibilidade abaixo do limite selecionado.'')
      else Info nenhum_dado)"

section \<open>2. Damage analysis (lines 184-195)\<close>

text \<open>
  The quotient of two columns is a float64 column. Only its special values matter here:
  a finite value is kept as the exact quotient, and division by zero gives an infinity
  (non-zero numerator) or \<open>NaN\<close> (zero numerator) instead of raising.
\<close>

datatype float64 = Finito rat | PInf | NInf | NaN

definition dividir :: "int \<Rightarrow> int \<Rightarrow> float64" where
  "dividir a b =
     (if b = 0 then (if a > 0 then PInf else if a < 0 then NInf else NaN)
      else Finito (of_int a / of_int b))"

fun vezes :: "float64 \<Rightarrow> rat \<Rightarrow> float64" where
  "vezes (Finito q) c = Finito (q * c)"
| "vezes PInf c = (if c > 0 then PInf else if c < 0 then NInf else NaN)"
| "vezes NInf c = (if c > 0 then NInf else if c < 0 then PInf else NaN)"
| "vezes NaN c = NaN"

text \<open>\<open>fillna(0)\<close> replaces missing values (\<open>NaN\<close>) and nothing else.\<close>

fun fillna_0 :: "float64 \<Rightarrow> float64" where
  "fillna_0 NaN = Finito 0"
| "fillna_0 x = x"

record linha_avaria = linha_df +
  porcentagem_avaria :: float64

definition df_avariado :: "linha_df list \<Rightarrow> linha_avaria list" where
  "df_avariado df_filtrado =
     map (\<lambda>r. linha_df.extend r
                 \<lparr>porcentagem_avaria =
                    fillna_0 (vezes (dividir (quantidade_avariada r) (quantidade_fisica r)) 100)\<rparr>)
         (filter (\<lambda>r. quantidade_avariada r > 0) df_filtrado)"

definition secao_avarias :: "linha_df list \<Rightarrow> linha_avaria exibicao" where
  "secao_avarias df_filtrado =
     (if df_filtrado \<noteq> [] then
        (if filter (\<lambda>r. quantidade_avariada r > 0) df_filtrado \<noteq> []
         then Dados (sort_values_desc quantidade_avariada (df_avariado df_filtrado))
         else Info ''Nenhum item avariado encontrado com os filtros selecionados.'')
      else Info nenhum_dado)"

section \<open>3. Stale stock (lines 203-222)\<close>

text \<open>\<open>Timedelta.days\<close>: whole days, rounded towards minus infinity.\<close>

definition timedelta_days :: "timestamp \<Rightarrow> timestamp \<Rightarrow> int" where
  "timedelta_days hoje d = (ts_value hoje - ts_value d) div 86400000000000"

text \<open>Line 205 assigns the column \<open>dias_desde_ultima_compra\<close> of \<open>df_filtrado\<close> itself.\<close>

definition atribuir_dias :: "timestamp \<Rightarrow> linha_df list \<Rightarrow> linha_df list" where
  "atribuir_dias hoje df_filtrado =
     map (\<lambda>r. r\<lparr>dias_desde_ultima_compra :=
                  map_option (timedelta_days hoje) (data_ultima_compra r)\<rparr>) df_filtrado"

text \<open>A comparison with a missing value is false; the rows that pass the filter all have
  a number of days, which is their sort key.\<close>

definition dias_maior_que :: "int \<Rightarrow> linha_df \<Rightarrow> bool" where
  "dias_maior_que limite r =
     (case dias_desde_ultima_compra r of None \<Rightarrow> False | Some d \<Rightarrow> d > limite)"

definition chave_dias :: "linha_df \<Rightarrow> int" where
  "chave_dias r = (case dias_desde_ultima_compra r of None \<Rightarrow> 0 | Some d \<Rightarrow> d)"

definition estoque_parado :: "linha_df list \<Rightarrow> int \<Rightarrow> linha_df list" where
  "estoque_parado df_filtrado limite_dias_compra =
     sort_values_desc chave_dias
       (filter (\<lambda>r. dias_maior_que limite_dias_compra r \<and> quantidade_fisica r > 0) df_filtrado)"

text \<open>The section returns what it shows and \<open>df_filtrado\<close> as it leaves it.\<close>

definition secao_estoque_parado ::
  "timestamp \<Rightarrow> int \<Rightarrow> linha_df list \<Rightarrow> linha_df exibicao \<times> linha_df list" where
  "secao_estoque_parado hoje limite_dias_compra df_filtrado =
     (if df_filtrado \<noteq> [] then
        (let df_filtrado = atribuir_dias hoje df_filtrado
         in (if estoque_parado df_filtrado limite_dias_compra \<noteq> []
             then Dados (estoque_parado df_filtrado limite_dias_compra)
             else Info ''Nenhum estoque parado encontrado com os criterios selecionados.'',
             df_filtrado))
      else (Info nenhum_dado, df_filtrado))"

section \<open>4. Critical products (lines 231-257)\<close>

text \<open>\<open>min_disponivel\<close> is the value of the slider (lines 232-234).\<close>

definition produtos_criticos :: "linha_df list \<Rightarrow> int \<Rightarrow> linha_df list" where
  "produtos_criticos df_filtrado min_disponivel =
     sort_values_desc quantidade_solicitada
       (filter (\<lambda>r. quantidade_disponivel r < min_disponivel \<and> quantidade_solicitada r > 0)
          df_filtrado)"

definition secao_criticos :: "linha_df list \<Rightarrow> int \<Rightarrow> linha_df exibicao" where
  "secao_criticos df_filtrado min_disponivel =
     (if df_filtrado \<noteq> [] then
        (if produtos_criticos df_filtrado min_disponivel \<noteq> []
         then Dados (produtos_criticos df_filtrado min_disponivel)
         else Info ''Nenhum produto critico encontrado com os criterios selecionados.'')
      else Info nenhum_dado)"

section \<open>5. Performance by manufacturer (lines 265-279)\<close>

record desempenho =
  dp_fabricante :: string
  total_quantidade_fisica :: int
  total_quantidade_avariada :: int
  total_quantidade_disponivel :: int
  total_quantidade_solicitada :: int
  contagem_produtos :: nat

definition df_desempenho_fabricante :: "linha_df list \<Rightarrow> desempenho list" where
  "df_desempenho_fabricante df_filtrado =
     map (\<lambda>f. let g = grupo fabricante f df_filtrado in
            \<lparr>dp_fabricante = f,
             total_quantidade_fisica = soma (map quantidade_fisica g),
             total_quantidade_avariada = soma (map quantidade_avariada g),
             total_quantidade_disponivel = soma (map quantidade_disponivel g),
             total_quantidade_solicitada = soma (map quantidade_solicitada g),
             contagem_produtos = nunique (map produto g)\<rparr>)
         (groupby_keys fabricante df_filtrado)"

definition secao_desempenho :: "linha_df list \<Rightarrow> desempenho exibicao" where
  "secao_desempenho df_filtrado =
     (if df_filtrado \<noteq> []
      then Dados (sort_values_desc total_quantidade_fisica (df_desempenho_fabricante df_filtrado))
      else Info nenhum_dado)"

section \<open>The page: lines 87-279 in the order the script runs them\<close>

record limites =
  lm_disponibilidade :: int
  lm_hoje :: timestamp
  lm_dias_compra :: int
  lm_min_disponivel :: int

record pagina =
  pg_visao_geral :: metricas
  pg_top_fabricantes :: "(string \<times> int) exibicao"
  pg_resumo_quantidades :: "resumo exibicao"
  pg_baixa_disponibilidade :: "linha_df exibicao"
  pg_avarias :: "linha_avaria exibicao"
  pg_estoque_parado :: "linha_df exibicao"
  pg_criticos :: "linha_df exibicao"
  pg_desempenho :: "desempenho exibicao"
  pg_df_estoque :: "linha_df list"
  pg_df_filtrado :: "linha_df list"

text \<open>The views of one run over a given \<open>df_filtrado\<close>, with frames as values. The last two
  fields are the two frames as the run leaves them when \<open>df_estoque\<close> and \<open>df_filtrado\<close>
  are distinct objects; the run over objects in memory follows below.\<close>

definition visoes :: "limites \<Rightarrow> linha_df list \<Rightarrow> linha_df list \<Rightarrow> pagina" where
  "visoes param df_estoque df_filtrado =
     (let geral = visao_geral df_filtrado;
          top = secao_top_fabricantes df_filtrado;
          res = secao_resumo_quantidades df_filtrado;
          baixa = secao_baixa_disponibilidade df_filtrado (lm_disponibilidade param);
          avarias = secao_avarias df_filtrado;
          (parado, df_filtrado) = secao_estoque_parado (lm_hoje param) (lm_dias_compra param) df_filtrado;
          criticos = secao_criticos df_filtrado (lm_min_disponivel param);
          desemp = secao_desempenho df_filtrado
      in \<lparr>pg_visao_geral = geral, pg_top_fabricantes = top, pg_resumo_quantidades = res,
          pg_baixa_disponibilidade = baixa, pg_avarias = avarias, pg_estoque_parado = parado,
          pg_criticos = criticos, pg_desempenho = desemp,
          pg_df_estoque = df_estoque, pg_df_filtrado = df_filtrado\<rparr>)"


section \<open>The run over objects in memory\<close>

text \<open>
  A pandas frame is an object: a name is bound to a reference, \<open>inplace=True\<close> and a
  column assignment \<open>df[col] = ...\<close> change the object behind the reference, while
  \<open>.copy()\<close> and indexing with a boolean mask \<open>df[mask]\<close> make a new object. A frame
  either has the columns of the file only, or the derived columns as well.
\<close>

type_synonym ref = nat

datatype frame = Bruto "linha list" | Derivado "linha_df list"

record memoria =
  objetos :: "ref \<Rightarrow> frame option"
  livre :: ref



text \<open>A change in place of the object behind \<open>r\<close>.\<close>

definition gravar :: "ref \<Rightarrow> frame \<Rightarrow> memoria \<Rightarrow> memoria" where
  "gravar r fr m = m\<lparr>objetos := (objetos m)(r \<mapsto> fr)\<rparr>"

text \<open>Reading the rows of a frame that has the derived columns; \<open>None\<close> where the script
  would stop on a missing name or column.\<close>

definition ler :: "memoria \<Rightarrow> ref \<Rightarrow> linha_df list option" where
  "ler m r = (case objetos m r of Some (Derivado linhas) \<Rightarrow> Some linhas | _ \<Rightarrow> None)"






text \<open>Lines 203-222: line 205 assigns the column on the object of \<open>df_filtrado\<close>.\<close>

definition secao_estoque_parado_em ::
  "timestamp \<Rightarrow> int \<Rightarrow> ref \<Rightarrow> memoria \<Rightarrow> (linha_df exibicao \<times> memoria) option" where
  "secao_estoque_parado_em hoje limite_dias_compra df_filtrado m =
     (case ler m df_filtrado of
        None \<Rightarrow> None
      | Some linhas \<Rightarrow>
          (if linhas \<noteq> [] then
             (let m = gravar df_filtrado (Derivado (atribuir_dias hoje linhas)) m
              in case ler m df_filtrado of
                   None \<Rightarrow> None
                 | Some linhas \<Rightarrow>
                     Some (if estoque_parado linhas limite_dias_compra \<noteq> []
                           then Dados (estoque_parado linhas limite_dias_compra)
                           else Info ''Nenhum estoque parado encontrado com os criterios selecionados.'',
                           m))
           else Some (Info nenhum_dado, m)))"

text \<open>Lines 110-279. Every section reads the object of \<open>df_filtrado\<close> as it is when the
  section runs; the frames a section builds for itself (\<open>df_avariado\<close>, the grouped and
  sorted frames) are new objects no other name is bound to. The last two fields of the
  page are read from memory at the end.\<close>

definition visoes_em :: "limites \<Rightarrow> ref \<Rightarrow> ref \<Rightarrow> memoria \<Rightarrow> (pagina \<times> memoria) option" where
  "visoes_em param df_estoque df_filtrado m =
     (case ler m df_filtrado of
        None \<Rightarrow> None
      | Some linhas \<Rightarrow>
          (let geral = visao_geral linhas;
               top = secao_top_fabricantes linhas;
               res = secao_resumo_quantidades linhas;
               baixa = secao_baixa_disponibilidade linhas (lm_disponibilidade param);
               avarias = secao_avarias linhas
           in case secao_estoque_parado_em (lm_hoje param) (lm_dias_compra param) df_filtrado m of
                None \<Rightarrow> None
              | Some (parado, m) \<Rightarrow>
                  (case ler m df_filtrado of
                     None \<Rightarrow> None
                   | Some linhas \<Rightarrow>
                       (case ler m df_estoque of
                          None \<Rightarrow> None
                        | Some linhas_estoque \<Rightarrow>
                            Some (\<lparr>pg_visao_geral = geral, pg_top_fabricantes = top,
                                   pg_resumo_quantidades = res, pg_baixa_disponibilidade = baixa,
                                   pg_avarias = avarias, pg_estoque_parado = parado,
                                   pg_criticos = secao_criticos linhas (lm_min_disponivel param),
                                   pg_desempenho = secao_desempenho linhas,
                                   pg_df_estoque = linhas_estoque, pg_df_filtrado = linhas\<rparr>,
                                  m)))))"

section \<open>Sample frames\<close>

text \<open>Rows used to run the definitions: the three records A, B and C of the scenario
  (manufacturers X, X and Y), and rows with a negative availability, with damaged units
  but nothing on hand, and with equal quantities for two manufacturers.\<close>

definition dia :: "int \<Rightarrow> nat \<Rightarrow> int \<Rightarrow> timestamp" where
  "dia a m n = \<lparr>ts_year = a, ts_month = m, ts_value = n * 86400000000000\<rparr>"

definition registro ::
  "string \<Rightarrow> string \<Rightarrow> int \<Rightarrow> int \<Rightarrow> int \<Rightarrow> int \<Rightarrow> timestamp \<Rightarrow> linha_df" where
  "registro p f fisica disponivel solicitada avariada d =
     \<lparr>produto = p, fabricante = f, quantidade_fisica = fisica,
      quantidade_solicitada = solicitada, quantidade_reservada = 0,
      quantidade_disponivel = disponivel, quantidade_avariada = avariada,
      custo_liquido_entrada = 1, data_ultima_compra = Some d,
      ano_compra = ts_year d, mes_compra = ts_month d, dias_desde_ultima_compra = None\<rparr>"

definition reg_A :: linha_df where
  "reg_A = registro ''A'' ''X'' 100 5 20 10 (dia 2024 1 19732)"

definition reg_B :: linha_df where
  "reg_B = registro ''B'' ''X'' 50 60 0 0 (dia 2024 6 19875)"

definition reg_C :: linha_df where
  "reg_C = registro ''C'' ''Y'' 10 2 5 0 (dia 2023 3 19417)"

definition reg_N :: linha_df where
  "reg_N = registro ''N'' ''Y'' 7 (- 3) 50 0 (dia 2024 6 19875)"

definition reg_Z :: linha_df where
  "reg_Z = registro ''Z'' ''X'' 0 0 0 3 (dia 2024 1 19732)"

definition reg_00 :: linha_df where
  "reg_00 = registro ''O'' ''X'' 0 0 0 0 (dia 2024 1 19732)"

definition reg_Y5 :: linha_df where
  "reg_Y5 = registro ''P1'' ''Y'' 5 0 0 0 (dia 2024 1 19732)"

definition reg_X5 :: linha_df where
  "reg_X5 = registro ''P2'' ''X'' 5 0 0 0 (dia 2024 1 19732)"

definition linha_csv :: "string \<Rightarrow> timestamp option \<Rightarrow> linha" where
  "linha_csv p d =
     \<lparr>produto = p, fabricante = ''X'', quantidade_fisica = 1, quantidade_solicitada = 0,
      quantidade_reservada = 0, quantidade_disponivel = 1, quantidade_avariada = 0,
      custo_liquido_entrada = 1, data_ultima_compra = d\<rparr>"


section \<open>Facts about sorting and grouping\<close>

lemma mset_sort_values_desc: "mset (sort_values_desc f xs) = mset xs"
  by (simp add: sort_values_desc_def)

lemma set_sort_values_desc: "set (sort_values_desc f xs) = set xs"
  by (simp add: sort_values_desc_def)

lemma sorted_sort_values_desc: "sorted_wrt (\<lambda>a b. f a \<ge> f b) (sort_values_desc f xs)"
proof -
  have "sorted (map f (sort_key f (rev xs)))" by simp
  then have "sorted_wrt (\<lambda>a b. f a \<le> f b) (sort_key f (rev xs))"
    by (simp add: sorted_wrt_map)
  then show ?thesis
    by (simp add: sort_values_desc_def sorted_wrt_rev)
qed

lemma set_groupby_keys: "set (groupby_keys col df) = col ` set df"
  by (simp add: groupby_keys_def)

lemma length_groupby_keys: "length (groupby_keys col df) = card (col ` set df)"
  by (simp add: groupby_keys_def length_remdups_card_conv)

lemma num_mes_None: "num_mes itens m = None \<longleftrightarrow> m \<notin> snd ` set itens"
  by (induction itens m rule: num_mes.induct) auto

section \<open>Facts about the top manufacturers\<close>

text \<open>The facts below hold for every \<open>ordenar\<close> that returns its rows rearranged and
  in descending order of the sum, whatever it does with equal sums.\<close>

lemma agrupado_elem:
  "(f, s) \<in> set (df_agrupado_fabricante df) \<longleftrightarrow>
   f \<in> fabricante ` set df \<and>
   s = soma (map quantidade_fisica (filter (\<lambda>r. fabricante r = f) df))"
  by (auto simp: df_agrupado_fabricante_def set_groupby_keys grupo_def)

lemma agrupado_distinct: "distinct (map fst (df_agrupado_fabricante df))"
  by (simp add: df_agrupado_fabricante_def groupby_keys_def comp_def)

lemma length_agrupado: "length (df_agrupado_fabricante df) = card (fabricante ` set df)"
  by (simp add: df_agrupado_fabricante_def length_groupby_keys)

lemma top_10_com_subset:
  assumes "\<And>xs. mset (ordenar xs) = mset xs"
  shows "set (df_top_10_com ordenar df) \<subseteq> set (df_agrupado_fabricante df)"
proof -
  have "set (ordenar (df_agrupado_fabricante df)) = set (df_agrupado_fabricante df)"
    using assms by (rule mset_eq_setD)
  then show ?thesis
    using set_take_subset [of 10 "ordenar (df_agrupado_fabricante df)"]
    by (simp add: df_top_10_com_def)
qed

lemma top_10_com_length:
  assumes "\<And>xs. mset (ordenar xs) = mset xs"
  shows "length (df_top_10_com ordenar df) = min 10 (card (fabricante ` set df))"
proof -
  have "length (ordenar (df_agrupado_fabricante df)) = length (df_agrupado_fabricante df)"
    using assms by (rule mset_eq_length)
  then show ?thesis
    by (simp add: df_top_10_com_def length_agrupado min.commute)
qed

lemma top_10_com_distinct:
  assumes "\<And>xs. mset (ordenar xs) = mset xs"
  shows "distinct (map fst (df_top_10_com ordenar df))"
proof -
  have "mset (map fst (ordenar (df_agrupado_fabricante df)))
          = mset (map fst (df_agrupado_fabricante df))"
    using assms by simp
  then have "distinct (map fst (ordenar (df_agrupado_fabricante df)))"
    using agrupado_distinct [of df] mset_eq_imp_distinct_iff by blast
  then show ?thesis
    by (simp add: df_top_10_com_def take_map [symmetric])
qed

lemma top_10_com_sorted:
  assumes "\<And>xs. sorted_wrt (\<lambda>a b. snd b \<le> snd a) (ordenar xs)"
  shows "sorted_wrt (\<lambda>a b. snd b \<le> snd a) (df_top_10_com ordenar df)"
  using assms by (simp add: df_top_10_com_def sorted_wrt_take)

lemma top_10_com_maiores:
  assumes perm: "\<And>xs. mset (ordenar xs) = mset xs"
    and desc: "\<And>xs. sorted_wrt (\<lambda>a b. snd b \<le> snd a) (ordenar xs)"
    and g: "g \<in> set (df_agrupado_fabricante df)" "g \<notin> set (df_top_10_com ordenar df)"
    and x: "x \<in> set (df_top_10_com ordenar df)"
  shows "snd g \<le> snd x"
proof -
  let ?xs = "ordenar (df_agrupado_fabricante df)"
  have "sorted_wrt (\<lambda>a b. snd b \<le> snd a) (take 10 ?xs @ drop 10 ?xs)"
    using desc by simp
  then have *: "\<forall>a\<in>set (take 10 ?xs). \<forall>b\<in>set (drop 10 ?xs). snd b \<le> snd a"
    unfolding sorted_wrt_append by blast
  have "set ?xs = set (df_agrupado_fabricante df)"
    using perm by (rule mset_eq_setD)
  then have "g \<in> set (take 10 ?xs @ drop 10 ?xs)"
    using g(1) by simp
  with g(2) have "g \<in> set (drop 10 ?xs)"
    unfolding set_append by (simp add: df_top_10_com_def)
  with * x show ?thesis
    by (simp add: df_top_10_com_def)
qed

lemma top_10_scenario: "secao_top_fabricantes [reg_C, reg_B, reg_A] = Dados [(''X'', 150), (''Y'', 10)]"
  by code_simp

text \<open>Two frames with the same two rows in opposite order: \<open>groupby\<close> hands the same
  grouped frame, a tie, to the sort.\<close>

lemma agrupado_YX: "df_agrupado_fabricante [reg_Y5, reg_X5] = [(''X'', 5), (''Y'', 5)]"
  by code_simp

lemma agrupado_XY: "df_agrupado_fabricante [reg_X5, reg_Y5] = [(''X'', 5), (''Y'', 5)]"
  by code_simp

lemma mset_two: "mset xs = {#a, b#} \<Longrightarrow> xs = [a, b] \<or> xs = [b, a]"
proof -
  assume h: "mset xs = {#a, b#}"
  then have "length xs = 2" using mset_eq_length [of xs "[a, b]"] by simp
  then obtain u v where xs: "xs = [u, v]"
    by (metis (no_types) length_0_conv length_Suc_conv numeral_2_eq_2)
  with h show ?thesis
    by (auto simp: add_eq_conv_ex)
qed

lemma ordem_YX: "\<not> ordem_primeira_ocorrencia [reg_Y5, reg_X5] [(''X'', 5), (''Y'', 5)]"
  by (simp add: ordem_primeira_ocorrencia_def index_de_def reg_Y5_def reg_X5_def registro_def)

lemma ordem_XY: "\<not> ordem_primeira_ocorrencia [reg_X5, reg_Y5] [(''Y'', 5), (''X'', 5)]"
  by (simp add: ordem_primeira_ocorrencia_def index_de_def reg_Y5_def reg_X5_def registro_def)

lemma empate_qualquer_ordenacao:
  assumes perm: "\<And>xs. mset (ordenar xs) = mset xs"
  shows "df_top_10_com ordenar [reg_Y5, reg_X5] = df_top_10_com ordenar [reg_X5, reg_Y5] \<and>
     \<not> (ordem_primeira_ocorrencia [reg_Y5, reg_X5] (df_top_10_com ordenar [reg_Y5, reg_X5]) \<and>
        ordem_primeira_ocorrencia [reg_X5, reg_Y5] (df_top_10_com ordenar [reg_X5, reg_Y5]))"
proof -
  have "mset (ordenar [(''X'', 5::int), (''Y'', 5)]) = {#(''X'', 5), (''Y'', 5)#}"
    using perm [of "[(''X'', 5), (''Y'', 5)]"] by simp
  then have "ordenar [(''X'', 5), (''Y'', 5)] = [(''X'', 5), (''Y'', 5)] \<or>
             ordenar [(''X'', 5), (''Y'', 5)] = [(''Y'', 5), (''X'', 5)]"
    by (rule mset_two)
  then show ?thesis
    using ordem_YX ordem_XY by (auto simp: df_top_10_com_def agrupado_YX agrupado_XY)
qed

lemma criticos_scenario: "produtos_criticos [reg_A, reg_B] 10 = [reg_A]"
  by (simp add: produtos_criticos_def sort_values_desc_def reg_A_def reg_B_def registro_def)

lemma baixa_scenario:
  "produtos_baixa_disponibilidade [reg_C, reg_N, reg_B, reg_A] 10 = [reg_A, reg_C]"
  by (simp add: produtos_baixa_disponibilidade_def sort_values_desc_def
      reg_A_def reg_B_def reg_C_def reg_N_def registro_def)

section \<open>Facts about the run over objects in memory\<close>








text \<open>Without the copy of line 87 the name \<open>df_filtrado\<close> would be bound to the object
  of \<open>df_estoque\<close>, and line 205 would change the loaded frame.\<close>

lemma estoque_parado_em_grava:
  assumes "ler m r = Some df" and "df \<noteq> []"
  shows "\<exists>out m'. secao_estoque_parado_em hoje limite r m = Some (out, m') \<and>
           ler m' r = Some (atribuir_dias hoje df)"
  using assms
  by (auto simp: secao_estoque_parado_em_def gravar_def ler_def Let_def
      split: option.splits frame.splits)

lemma visoes_em_sem_copia:
  assumes "ler m r = Some df" and "df \<noteq> []"
  shows "\<exists>pg m'. visoes_em param r r m = Some (pg, m') \<and>
           ler m' r = Some (atribuir_dias (lm_hoje param) df) \<and>
           pg_df_estoque pg = atribuir_dias (lm_hoje param) df"
  using assms
  by (auto simp: visoes_em_def secao_estoque_parado_em_def gravar_def ler_def Let_def
      split: option.splits frame.splits)


section \<open>Claims\<close>

subsection \<open>C1: damage percentage when nothing is on hand\<close>

text \<open>
  C1. The claim is that a division by zero in \<open>porcentagem_avaria\<close> shows as 0. In the
  script a kept row has \<open>quantidade avariada > 0\<close>, so with \<open>quantidade fisica = 0\<close> the
  quotient is an infinity, which \<open>fillna(0)\<close> leaves alone: the row Z (3 damaged units,
  0 on hand) is shown with an infinite percentage. A row with 0 damaged units and 0 on
  hand is not kept by the view at all.
\<close>

theorem avaria_fisica_zero_is_inf:
  "secao_avarias [reg_Z] = Dados [linha_df.extend reg_Z \<lparr>porcentagem_avaria = PInf\<rparr>] \<and>
   secao_avarias [reg_00] = Info ''Nenhum item avariado encontrado com os filtros selecionados.''"
  by (simp add: secao_avarias_def df_avariado_def sort_values_desc_def dividir_def
      reg_Z_def reg_00_def registro_def)

subsection \<open>C2: no month filter without a year\<close>

text \<open>
  C2. With the year selector on \<open>'Todos'\<close> the month selector offers \<open>'Todos'\<close> only, so
  whatever month the user asks for, the filtered frame is the one for month \<open>'Todos'\<close>:
  the whole loaded frame.
\<close>

theorem month_forced_without_year:
  "filtros_globais df_estoque Todos m = filtros_globais df_estoque Todos ''Todos'' \<and>
   filtros_globais df_estoque Todos m = Some df_estoque"
  by (simp add: filtros_globais_def todos_anos_def todos_meses_def aplicar_filtros_def)

subsection \<open>C3: what a run does to the two frames\<close>




subsection \<open>C4: top manufacturers\<close>

text \<open>
  C4, as stated, fails on the order of ties. The frames \<open>[Y5, X5]\<close> and \<open>[X5, Y5]\<close> hold
  the same two rows, manufacturers Y and X with 5 units each, and differ in which
  manufacturer is seen first. The view shows the same rows in the same order for both,
  so for one of them the tie is not in first-seen order.
\<close>

theorem top_10_ties_not_first_seen:
  "df_top_10_fabricantes [reg_Y5, reg_X5] = df_top_10_fabricantes [reg_X5, reg_Y5] \<and>
   \<not> (ordem_primeira_ocorrencia [reg_Y5, reg_X5] (df_top_10_fabricantes [reg_Y5, reg_X5]) \<and>
      ordem_primeira_ocorrencia [reg_X5, reg_Y5] (df_top_10_fabricantes [reg_X5, reg_Y5]))"
  unfolding df_top_10_fabricantes_def
  using mset_sort_values_desc by (rule empate_qualquer_ordenacao)

text \<open>
  C4, amended. For a non-empty \<open>df_filtrado\<close> the section shows one row per manufacturer
  with the (64-bit) sum of its \<open>quantidade fisica\<close>, at most 10 rows (all the manufacturers
  when there are fewer), in descending order of the sum; every manufacturer left out has
  a sum no larger than any sum shown. Nothing is promised on the order of equal sums: the
  statement holds for every sort that rearranges the grouped rows into descending order.
\<close>

theorem top_10_fabricantes_spec:
  assumes perm: "\<And>xs. mset (ordenar xs) = mset xs"
    and desc: "\<And>xs. sorted_wrt (\<lambda>a b. snd b \<le> snd a) (ordenar xs)"
    and ne: "df_filtrado \<noteq> []"
  shows "\<exists>mostrado. secao_top_fabricantes_com ordenar df_filtrado = Dados mostrado \<and>
     length mostrado = min 10 (card (fabricante ` set df_filtrado)) \<and>
     distinct (map fst mostrado) \<and>
     (\<forall>(f, s) \<in> set mostrado. f \<in> fabricante ` set df_filtrado \<and>
        s = soma (map quantidade_fisica (filter (\<lambda>r. fabricante r = f) df_filtrado))) \<and>
     sorted_wrt (\<lambda>a b. snd a \<ge> snd b) mostrado \<and>
     (\<forall>f \<in> fabricante ` set df_filtrado. f \<notin> fst ` set mostrado \<longrightarrow>
        (\<forall>x \<in> set mostrado.
           soma (map quantidade_fisica (filter (\<lambda>r. fabricante r = f) df_filtrado)) \<le> snd x))"
proof -
  let ?top = "df_top_10_com ordenar df_filtrado"
  have 1: "secao_top_fabricantes_com ordenar df_filtrado = Dados ?top"
    using ne by (simp add: secao_top_fabricantes_com_def)
  have 2: "\<forall>(f, s) \<in> set ?top. f \<in> fabricante ` set df_filtrado \<and>
        s = soma (map quantidade_fisica (filter (\<lambda>r. fabricante r = f) df_filtrado))"
    using top_10_com_subset [of ordenar df_filtrado, OF perm] agrupado_elem [of _ _ df_filtrado]
    by blast
  have 3: "\<forall>f \<in> fabricante ` set df_filtrado. f \<notin> fst ` set ?top \<longrightarrow>
        (\<forall>x \<in> set ?top.
           soma (map quantidade_fisica (filter (\<lambda>r. fabricante r = f) df_filtrado)) \<le> snd x)"
  proof (intro ballI impI)
    fix f x
    assume f: "f \<in> fabricante ` set df_filtrado"
      and nf: "f \<notin> fst ` set ?top" and x: "x \<in> set ?top"
    let ?g = "(f, soma (map quantidade_fisica (filter (\<lambda>r. fabricante r = f) df_filtrado)))"
    have "?g \<in> set (df_agrupado_fabricante df_filtrado)"
      using f by (simp add: agrupado_elem)
    moreover have "?g \<notin> set ?top"
      using nf by force
    ultimately have "snd ?g \<le> snd x"
      using x top_10_com_maiores [of ordenar ?g df_filtrado x, OF perm desc] by blast
    then show "soma (map quantidade_fisica (filter (\<lambda>r. fabricante r = f) df_filtrado)) \<le> snd x"
      by simp
  qed
  show ?thesis
    using 1 2 3 top_10_com_length [of ordenar df_filtrado, OF perm]
      top_10_com_distinct [of ordenar df_filtrado, OF perm]
      top_10_com_sorted [of ordenar df_filtrado, OF desc]
    by blast
qed

text \<open>The scenario frame, sorted with the sort of the model: X with 150 units, Y with 10.\<close>

theorem top_10_fabricantes_witness:
  "[reg_C, reg_B, reg_A] \<noteq> [] \<and>
   secao_top_fabricantes_com (sort_values_desc snd) [reg_C, reg_B, reg_A]
     = Dados [(''X'', 150), (''Y'', 10)]"
proof -
  have ne: "[reg_C, reg_B, reg_A] \<noteq> []" by simp
  from top_10_fabricantes_spec [of "sort_values_desc snd", OF mset_sort_values_desc sorted_sort_values_desc ne]
  obtain mostrado where "secao_top_fabricantes_com (sort_values_desc snd) [reg_C, reg_B, reg_A] = Dados mostrado"
    and "length mostrado = min 10 (card (fabricante ` set [reg_C, reg_B, reg_A]))" by blast
  moreover have "secao_top_fabricantes_com (sort_values_desc snd) [reg_C, reg_B, reg_A]
     = Dados [(''X'', 150), (''Y'', 10)]"
    using top_10_scenario by (simp add: secao_top_fabricantes_def)
  ultimately show ?thesis using ne by simp
qed

subsection \<open>C5: an empty filtered frame\<close>

text \<open>
  C5. On an empty \<open>df_filtrado\<close> the overview shows zero products, zero items and a zero
  value, every section shows the message that there is no data for the selected filters,
  nothing is raised, and both frames are left as they were.
\<close>

theorem empty_frame_views:
  "visoes param df_estoque [] =
     \<lparr>pg_visao_geral = \<lparr>total_produtos = 0, total_itens_fisicos = 0, valor_total_estoque = 0\<rparr>,
      pg_top_fabricantes = Info nenhum_dado, pg_resumo_quantidades = Info nenhum_dado,
      pg_baixa_disponibilidade = Info nenhum_dado, pg_avarias = Info nenhum_dado,
      pg_estoque_parado = Info nenhum_dado, pg_criticos = Info nenhum_dado,
      pg_desempenho = Info nenhum_dado,
      pg_df_estoque = df_estoque, pg_df_filtrado = []\<rparr>"
  by (simp add: visoes_def visao_geral_def nunique_def unique_def soma_def int64_def
      secao_top_fabricantes_def secao_top_fabricantes_com_def
      secao_resumo_quantidades_def secao_baixa_disponibilidade_def secao_avarias_def
      secao_estoque_parado_def secao_criticos_def secao_desempenho_def)

subsection \<open>C6: the loader\<close>

text \<open>
  C6. \<open>carregar_dados\<close> reports the empty-file warning exactly when the file was read and
  no row has a parsed date (an empty file included); when some row has a parsed date it
  returns the rows with a parsed date, in their order, the others dropped; and every row
  of a returned frame has a parsed date.
\<close>

theorem carregar_dados_spec:
  "(carregar_dados arquivo = Inl Vazio \<longleftrightarrow>
      (\<exists>linhas. arquivo = Lido linhas \<and> (\<forall>r \<in> set linhas. data_ultima_compra r = None))) \<and>
   (\<forall>linhas. arquivo = Lido linhas \<and> (\<exists>r \<in> set linhas. data_ultima_compra r \<noteq> None) \<longrightarrow>
      carregar_dados arquivo = Inr (filter (\<lambda>r. data_ultima_compra r \<noteq> None) linhas)) \<and>
   (\<forall>df. carregar_dados arquivo = Inr df \<longrightarrow> (\<forall>r \<in> set df. data_ultima_compra r \<noteq> None))"
  by (cases arquivo) (auto simp: carregar_dados_def dropna_def Let_def filter_empty_conv)

theorem carregar_dados_witness:
  "carregar_dados (Lido [linha_csv ''A'' None, linha_csv ''B'' (Some (dia 2024 1 19732))])
     = Inr [linha_csv ''B'' (Some (dia 2024 1 19732))] \<and>
   carregar_dados (Lido [linha_csv ''A'' None]) = Inl Vazio \<and>
   carregar_dados (Lido []) = Inl Vazio"
  using carregar_dados_spec [of "Lido [linha_csv ''A'' None, linha_csv ''B'' (Some (dia 2024 1 19732))]"]
    carregar_dados_spec [of "Lido [linha_csv ''A'' None]"] carregar_dados_spec [of "Lido []"]
  by (simp add: linha_csv_def)

subsection \<open>C7: both filters on \<open>'Todos'\<close>\<close>

text \<open>
  C7. With year \<open>'Todos'\<close> and month \<open>'Todos'\<close> the filtered frame is the loaded frame:
  same rows, same order.
\<close>

theorem aplicar_filtros_todos:
  "aplicar_filtros df_estoque Todos ''Todos'' = df_estoque"
  by (simp add: aplicar_filtros_def)

subsection \<open>C8: low availability\<close>

text \<open>
  C8. For every limit \<open>t\<close>, \<open>produtos_baixa_disponibilidade\<close> holds exactly the rows of
  \<open>df_filtrado\<close> with \<open>0 \<le> quantidade disponivel < t\<close> (each as often as it occurs), none
  of them with a negative availability, in descending order of \<open>quantidade solicitada\<close>.
\<close>

theorem baixa_disponibilidade_spec:
  "mset (produtos_baixa_disponibilidade df_filtrado t) =
     mset (filter (\<lambda>r. 0 \<le> quantidade_disponivel r \<and> quantidade_disponivel r < t) df_filtrado) \<and>
   (\<forall>r \<in> set (produtos_baixa_disponibilidade df_filtrado t). \<not> quantidade_disponivel r < 0) \<and>
   sorted_wrt (\<lambda>a b. quantidade_solicitada a \<ge> quantidade_solicitada b)
     (produtos_baixa_disponibilidade df_filtrado t)"
  unfolding produtos_baixa_disponibilidade_def
  by (simp add: mset_sort_values_desc set_sort_values_desc sorted_sort_values_desc conj_commute)

theorem baixa_disponibilidade_witness:
  "produtos_baixa_disponibilidade [reg_C, reg_N, reg_B, reg_A] 10 = [reg_A, reg_C] \<and>
   mset [reg_A, reg_C] =
     mset (filter (\<lambda>r. 0 \<le> quantidade_disponivel r \<and> quantidade_disponivel r < 10)
             [reg_C, reg_N, reg_B, reg_A]) \<and>
   \<not> quantidade_disponivel reg_A < 0 \<and> \<not> quantidade_disponivel reg_C < 0 \<and>
   quantidade_disponivel reg_N < 0"
  using baixa_disponibilidade_spec [of "[reg_C, reg_N, reg_B, reg_A]" 10]
  by (simp add: baixa_scenario) (simp add: reg_N_def registro_def)

subsection \<open>C9: critical products\<close>

text \<open>
  C9. For every limit \<open>t\<close>, \<open>produtos_criticos\<close> holds exactly the rows of \<open>df_filtrado\<close>
  with \<open>quantidade disponivel < t\<close> and \<open>quantidade solicitada > 0\<close> (each as often as it
  occurs), in descending order of \<open>quantidade solicitada\<close>.
\<close>

theorem produtos_criticos_spec:
  "mset (produtos_criticos df_filtrado t) =
     mset (filter (\<lambda>r. quantidade_disponivel r < t \<and> quantidade_solicitada r > 0) df_filtrado) \<and>
   sorted_wrt (\<lambda>a b. quantidade_solicitada a \<ge> quantidade_solicitada b)
     (produtos_criticos df_filtrado t)"
  unfolding produtos_criticos_def
  by (simp add: mset_sort_values_desc sorted_sort_values_desc)

text \<open>The scenario of the claim: limit 10 on the records A and B gives A only.\<close>

theorem produtos_criticos_witness:
  "produtos_criticos [reg_A, reg_B] 10 = [reg_A] \<and>
   mset [reg_A] =
     mset (filter (\<lambda>r. quantidade_disponivel r < 10 \<and> quantidade_solicitada r > 0)
             [reg_A, reg_B])"
  using produtos_criticos_spec [of "[reg_A, reg_B]" 10]
  by (simp add: criticos_scenario)

subsection \<open>C10: a month label that is no abbreviation\<close>

text \<open>
  C10. For a specific year and a month label that is neither \<open>'Todos'\<close> nor one of the
  twelve abbreviations, the filtered frame is the frame filtered by the year alone: the
  label puts no constraint on the month.
\<close>

theorem unknown_month_label:
  "mes \<notin> snd ` set MESES_ABREVIADOS \<Longrightarrow> mes \<noteq> ''Todos'' \<Longrightarrow>
   aplicar_filtros df_estoque (Ano a) mes = filter (\<lambda>r. ano_compra r = a) df_estoque \<and>
   aplicar_filtros df_estoque (Ano a) mes = aplicar_filtros df_estoque (Ano a) ''Todos''"
  using num_mes_None [of MESES_ABREVIADOS mes] by (simp add: aplicar_filtros_def)

theorem unknown_month_label_witness:
  "''Janeiro'' \<notin> snd ` set MESES_ABREVIADOS \<and> ''Janeiro'' \<noteq> ''Todos'' \<and>
   aplicar_filtros [reg_A, reg_B, reg_C] (Ano 2024) ''Janeiro'' = [reg_A, reg_B]"
  using unknown_month_label [of "''Janeiro''" "[reg_A, reg_B, reg_C]" 2024]
  by (simp add: MESES_ABREVIADOS_def reg_A_def reg_B_def reg_C_def registro_def dia_def)

end
